theory Spec2Isabelle
  imports Main "HOL-Library.Word"
begin

unbundle bit_operations_syntax

section \<open>Polly API client helpers (client.py)\<close>

text \<open>
  The module wraps two endpoints of the Polly service, \<^verbatim>\<open>cast_vote\<close> and
  \<^verbatim>\<open>get_poll_results\<close>, and shares one response handler, \<^verbatim>\<open>_handle_response\<close>.
  The embedding keeps the control flow of the Python functions. What the module takes from
  the \<^verbatim>\<open>requests\<close> library (sending a request, \<^verbatim>\<open>raise_for_status\<close>, the result of
  \<^verbatim>\<open>response.json()\<close>) is modelled after the library's documented behaviour and is
  marked as such.
\<close>

subsection \<open>Python values\<close>

text \<open>
  The objects \<^verbatim>\<open>response.json()\<close> can produce. A Python float is kept as its IEEE-754
  binary64 bit pattern, so that no floating-point arithmetic is needed: the only thing the
  code asks of a float is whether it is zero. A dict is an association list in insertion
  order.
\<close>

datatype json =
    JNull
  | JBool bool
  | JInt int
  | JFloat "64 word"
  | JString string
  | JArray "json list"
  | JObject "(string \<times> json) list"

text \<open>
  Python truth value testing, as used by \<^verbatim>\<open>msg or str(exc)\<close>: \<^verbatim>\<open>None\<close>, \<^verbatim>\<open>False\<close>,
  numeric zero (for a float both \<^verbatim>\<open>0.0\<close> and \<^verbatim>\<open>-0.0\<close>, that is every bit but the sign
  clear) and empty strings, lists and dicts are false.
\<close>

fun truthy :: "json \<Rightarrow> bool" where
  "truthy JNull = False"
| "truthy (JBool b) = b"
| "truthy (JInt i) = (i \<noteq> 0)"
| "truthy (JFloat w) = (take_bit 63 w \<noteq> 0)"
| "truthy (JString s) = (s \<noteq> [])"
| "truthy (JArray xs) = (xs \<noteq> [])"
| "truthy (JObject kvs) = (kvs \<noteq> [])"

text \<open>
  \<^verbatim>\<open>obj.get("detail")\<close>: only a dict has the method; on any other object the attribute
  lookup raises \<^verbatim>\<open>AttributeError\<close>, which is \<^term>\<open>None\<close> here. A missing key gives
  Python's \<^verbatim>\<open>None\<close>.
\<close>

fun json_get :: "json \<Rightarrow> string \<Rightarrow> json option" where
  "json_get (JObject kvs) k = Some (case map_of kvs k of None \<Rightarrow> JNull | Some v \<Rightarrow> v)"
| "json_get _ k = None"

text \<open>\<^verbatim>\<open>str(n)\<close> of a Python int: decimal digits, a minus sign for negative numbers.\<close>

definition digit_char :: "nat \<Rightarrow> char" where
  "digit_char d = ''0123456789'' ! d"

fun str_nat :: "nat \<Rightarrow> string" where
  "str_nat n = (if n < 10 then [digit_char n] else str_nat (n div 10) @ [digit_char (n mod 10)])"

declare str_nat.simps [simp del]

definition str_int :: "int \<Rightarrow> string" where
  "str_int i = (if i < 0 then CHR ''-'' # str_nat (nat (- i)) else str_nat (nat i))"

text \<open>\<^verbatim>\<open>s.rstrip(chars)\<close>: drop every trailing character that occurs in \<^verbatim>\<open>chars\<close>.\<close>

definition rstrip :: "string \<Rightarrow> string \<Rightarrow> string" where
  "rstrip s chars = rev (dropWhile (\<lambda>c. c \<in> set chars) (rev s))"

subsection \<open>Requests, responses and the network\<close>

datatype http_method = GET | POST

text \<open>
  The arguments of \<^verbatim>\<open>requests.get\<close> and \<^verbatim>\<open>requests.post\<close>. The timeout is
  \<^term>\<open>None\<close> when the caller passes none (the library then waits without limit) and
  \<^term>\<open>Some n\<close> for \<^verbatim>\<open>timeout=n\<close> seconds.
\<close>

record request =
  req_method :: http_method
  req_url :: string
  req_json :: "json option"
  req_headers :: "(string \<times> string) list"
  req_timeout :: "nat option"

text \<open>
  What the code reads of a \<^verbatim>\<open>requests.Response\<close>: the status code, the reason phrase
  and URL (they appear in the text of \<^verbatim>\<open>HTTPError\<close>), and the result of
  \<^verbatim>\<open>response.json()\<close>, \<^term>\<open>None\<close> when the body is not JSON and the call raises
  \<^verbatim>\<open>ValueError\<close>.
\<close>

record response =
  status_code :: int
  reason :: string
  resp_url :: string
  json_body :: "json option"

text \<open>
  The exceptions a call can end with. \<^verbatim>\<open>ApiClientError\<close> carries whatever object the
  code passes to it, which is the server's \<^verbatim>\<open>detail\<close> value when there is one.
  \<open>RequestException\<close> stands for an exception raised by the library while sending
  (connection failure, timeout); the client has no handler for it, so it reaches the
  caller. The library's exception classes are kept apart from the client's own
  \<^verbatim>\<open>ValueError\<close>, whatever their base classes, and \<^verbatim>\<open>str\<close> of an integer is taken without
  the interpreter's limit on the number of digits.
\<close>

datatype 'e exn =
    ValueError string
  | ApiClientError json
  | RequestException 'e

type_synonym 'e outcome = "'e exn + json"

text \<open>
  The world outside the function: the requests sent so far and the lines written with
  \<^verbatim>\<open>logger.error\<close>. The network answers a request, given the requests before it, with a
  response or with a failure of the transport.
\<close>

record world =
  sent :: "request list"
  logged :: "string list"

type_synonym 'e network = "request list \<Rightarrow> request \<Rightarrow> 'e + response"

definition http_send :: "'e network \<Rightarrow> world \<Rightarrow> request \<Rightarrow> ('e + response) \<times> world" where
  "http_send net w req = (net (sent w) req, w\<lparr>sent := sent w @ [req]\<rparr>)"

definition requests_post ::
  "'e network \<Rightarrow> world \<Rightarrow> string \<Rightarrow> json \<Rightarrow> (string \<times> string) list \<Rightarrow> nat
     \<Rightarrow> ('e + response) \<times> world" where
  "requests_post net w url payload headers timeout =
     http_send net w \<lparr>req_method = POST, req_url = url, req_json = Some payload,
                      req_headers = headers, req_timeout = Some timeout\<rparr>"

definition requests_get ::
  "'e network \<Rightarrow> world \<Rightarrow> string \<Rightarrow> (string \<times> string) list \<Rightarrow> nat
     \<Rightarrow> ('e + response) \<times> world" where
  "requests_get net w url headers timeout =
     http_send net w \<lparr>req_method = GET, req_url = url, req_json = None,
                      req_headers = headers, req_timeout = Some timeout\<rparr>"

definition logger_error :: "world \<Rightarrow> string \<Rightarrow> world" where
  "logger_error w line = w\<lparr>logged := logged w @ [line]\<rparr>"

text \<open>
  \<^verbatim>\<open>Response.raise_for_status()\<close> of the library: it raises \<^verbatim>\<open>HTTPError\<close> for the
  status codes 400 to 599 and for no other; the result is the text of the exception.
\<close>

definition raise_for_status :: "response \<Rightarrow> string option" where
  "raise_for_status r =
     (if 400 \<le> status_code r \<and> status_code r < 500
        then Some (str_int (status_code r) @ '' Client Error: '' @ reason r
                     @ '' for url: '' @ resp_url r)
      else if 500 \<le> status_code r \<and> status_code r < 600
        then Some (str_int (status_code r) @ '' Server Error: '' @ reason r
                     @ '' for url: '' @ resp_url r)
      else None)"

subsection \<open>The client\<close>

definition handle_response :: "response \<Rightarrow> 'e outcome" where
  "handle_response r =
     (case raise_for_status r of
        Some exc \<Rightarrow>
          (let msg = (case json_body r of
                        None \<Rightarrow> JNull
                      | Some body \<Rightarrow> (case json_get body ''detail'' of
                                        None \<Rightarrow> JNull
                                      | Some d \<Rightarrow> d))
           in Inl (ApiClientError (if truthy msg then msg else JString exc)))
      | None \<Rightarrow>
          (case json_body r of
             Some body \<Rightarrow> Inr body
           | None \<Rightarrow> Inl (ApiClientError (JString ''Response did not contain valid JSON data''))))"

definition default_base_url :: string where
  "default_base_url = ''http://localhost:8000''"

definition cast_vote ::
  "'e network \<Rightarrow> world \<Rightarrow> int \<Rightarrow> int \<Rightarrow> string \<Rightarrow> string \<Rightarrow> 'e outcome \<times> world" where
  "cast_vote net w poll_id option_id token base_url =
     (if poll_id = 0 then
        (Inl (ValueError ''Parameter 'poll_id' is required and must be a positive integer''), w)
      else if option_id = 0 then
        (Inl (ValueError ''Parameter 'option_id' is required and must be a positive integer''), w)
      else if token = [] then
        (Inl (ValueError ''Parameter 'token' (JWT) is required''), w)
      else
        (let url = rstrip base_url ''/'' @ ''/polls/'' @ str_int poll_id @ ''/vote'';
             headers = [(''Authorization'', ''Bearer '' @ token),
                        (''Content-Type'', ''application/json''),
                        (''Accept'', ''application/json'')];
             payload = JObject [(''option_id'', JInt option_id)]
         in case requests_post net w url payload headers 10 of
              (Inl e, w') \<Rightarrow> (Inl (RequestException e), w')
            | (Inr r, w') \<Rightarrow>
                if status_code r = 401 then
                  (Inl (ApiClientError (JString ''Unauthorized: invalid or expired token'')), w')
                else if status_code r = 404 then
                  (Inl (ApiClientError (JString ''Poll or option not found'')), w')
                else (handle_response r, w')))"

definition get_poll_results ::
  "'e network \<Rightarrow> world \<Rightarrow> int \<Rightarrow> string \<Rightarrow> string \<Rightarrow> 'e outcome \<times> world" where
  "get_poll_results net w poll_id token base_url =
     (if poll_id = 0 then
        (Inl (ValueError ''Parameter 'poll_id' is required and must be a positive integer''), w)
      else if token = [] then
        (Inl (ValueError ''Parameter 'token' (JWT) is required''), w)
      else
        (let url = rstrip base_url ''/'' @ ''/polls/'' @ str_int poll_id @ ''/results'';
             headers = [(''Authorization'', ''Bearer '' @ token),
                        (''Accept'', ''application/json'')]
         in case requests_get net w url headers 10 of
              (Inl e, w') \<Rightarrow> (Inl (RequestException e), w')
            | (Inr r, w') \<Rightarrow>
                if status_code r = 401 then
                  (Inl (ApiClientError (JString ''Unauthorized: invalid or expired token'')),
                   logger_error w' (''Unauthorized while fetching poll results for poll_id=''
                                      @ str_int poll_id))
                else if status_code r = 404 then
                  (Inl (ApiClientError (JString ''Poll not found'')),
                   logger_error w' (''Poll not found when fetching results for poll_id=''
                                      @ str_int poll_id))
                else (handle_response r, w')))"

subsection \<open>Notions used in the statements\<close>

text \<open>
  The requests a call has added to the log, and the network's answer to the last of them.
\<close>

definition new_requests :: "world \<Rightarrow> world \<Rightarrow> request list" where
  "new_requests w w' = drop (length (sent w)) (sent w')"

definition answer :: "'e network \<Rightarrow> world \<Rightarrow> world \<Rightarrow> 'e + response" where
  "answer net w w' = net (sent w) (last (sent w'))"

fun raises_ValueError :: "'e outcome \<Rightarrow> bool" where
  "raises_ValueError (Inl (ValueError m)) = True"
| "raises_ValueError _ = False"

text \<open>
  A call that got past validation ends in one of three ways: the library's own exception
  when the transport failed, and otherwise the parsed body of the response or an
  \<^verbatim>\<open>ApiClientError\<close>.
\<close>

definition typed_result :: "'e network \<Rightarrow> world \<Rightarrow> 'e outcome \<times> world \<Rightarrow> bool" where
  "typed_result net w res =
     (case answer net w (snd res) of
        Inl e \<Rightarrow> fst res = Inl (RequestException e)
      | Inr r \<Rightarrow> (case fst res of
                    Inr body \<Rightarrow> json_body r = Some body
                  | Inl (ApiClientError m) \<Rightarrow> True
                  | Inl _ \<Rightarrow> False))"


subsection \<open>Example worlds, networks and responses\<close>

definition empty_world :: world where
  "empty_world = \<lparr>sent = [], logged = []\<rparr>"

definition fixed_network :: "response \<Rightarrow> string network" where
  "fixed_network r hist req = Inr r"

definition failing_network :: "string \<Rightarrow> string network" where
  "failing_network e hist req = Inl e"

definition vote_recorded :: response where
  "vote_recorded = \<lparr>status_code = 200, reason = ''OK'',
     resp_url = ''http://localhost:8000/polls/1/vote'',
     json_body = Some (JObject [(''id'', JInt 7), (''option_id'', JInt 3)])\<rparr>"

definition unauthorized :: response where
  "unauthorized = \<lparr>status_code = 401, reason = ''Unauthorized'',
     resp_url = ''http://localhost:8000/polls/1/vote'',
     json_body = Some (JObject [(''detail'', JString ''Could not validate credentials'')])\<rparr>"

definition not_found :: response where
  "not_found = \<lparr>status_code = 404, reason = ''Not Found'',
     resp_url = ''http://localhost:8000/polls/1/vote'',
     json_body = Some (JObject [(''detail'', JString ''Not Found'')])\<rparr>"

definition multiple_choices :: response where
  "multiple_choices = \<lparr>status_code = 300, reason = ''Multiple Choices'',
     resp_url = ''http://localhost:8000/polls/1/vote'',
     json_body = Some (JObject [(''alternatives'', JArray [])])\<rparr>"

section \<open>Properties\<close>

lemmas client_defs = cast_vote_def get_poll_results_def requests_post_def requests_get_def
  http_send_def logger_error_def Let_def

lemmas eval_defs = client_defs handle_response_def raise_for_status_def rstrip_def str_int_def
  digit_char_def fixed_network_def failing_network_def empty_world_def default_base_url_def
  new_requests_def answer_def typed_result_def

subsection \<open>Strings\<close>

lemma str_nat_small [simp]: "n < 10 \<Longrightarrow> str_nat n = [digit_char n]"
  by (simp add: str_nat.simps)









lemma rstrip_append_slash: "rstrip (b @ ''/'') ''/'' = rstrip b ''/''"
  by (simp add: rstrip_def)





subsection \<open>The response handler\<close>

lemma handle_response_2xx:
  "200 \<le> status_code r \<Longrightarrow> status_code r < 300 \<Longrightarrow> json_body r = Some body
     \<Longrightarrow> handle_response r = Inr body"
  by (simp add: handle_response_def raise_for_status_def)

lemma handle_response_cases:
  "(\<exists>body. handle_response r = Inr body \<and> json_body r = Some body)
     \<or> (\<exists>m. handle_response r = Inl (ApiClientError m))"
  by (simp add: handle_response_def split: option.splits)

text \<open>
  The handler raises for the statuses 400 to 599, whatever the body, and for a body that
  is not JSON, whatever the status.
\<close>

lemma handle_response_4xx_5xx:
  "400 \<le> status_code r \<Longrightarrow> status_code r < 600
     \<Longrightarrow> \<exists>m. handle_response r = Inl (ApiClientError m)"
  by (simp add: handle_response_def raise_for_status_def Let_def)

lemma handle_response_not_json:
  "json_body r = None \<Longrightarrow> \<exists>m. handle_response r = Inl (ApiClientError m)"
  by (simp add: handle_response_def split: option.splits)


subsection \<open>What a call does to the world\<close>






lemma cast_vote_invalid:
  "poll_id = 0 \<or> option_id = 0 \<or> token = [] \<Longrightarrow>
   snd (cast_vote net w poll_id option_id token base_url) = w
   \<and> raises_ValueError (fst (cast_vote net w poll_id option_id token base_url))"
  by (auto simp: cast_vote_def)

lemma get_poll_results_invalid:
  "poll_id = 0 \<or> token = [] \<Longrightarrow>
   snd (get_poll_results net w poll_id token base_url) = w
   \<and> raises_ValueError (fst (get_poll_results net w poll_id token base_url))"
  by (auto simp: get_poll_results_def)



section \<open>The claims\<close>

text \<open>
  Claim C1. When the request is answered by a response with a status code in the 200 range
  whose body parses as JSON, \<^verbatim>\<open>cast_vote\<close> and \<^verbatim>\<open>get_poll_results\<close> return exactly
  that parsed body.
\<close>

theorem success_returns_parsed_body:
  "(poll_id \<noteq> 0 \<and> option_id \<noteq> 0 \<and> token \<noteq> []
      \<and> answer net w (snd (cast_vote net w poll_id option_id token base_url)) = Inr r
      \<and> 200 \<le> status_code r \<and> status_code r < 300 \<and> json_body r = Some body
    \<longrightarrow> fst (cast_vote net w poll_id option_id token base_url) = Inr body)
   \<and> (poll_id \<noteq> 0 \<and> token \<noteq> []
      \<and> answer net w (snd (get_poll_results net w poll_id token base_url)) = Inr r
      \<and> 200 \<le> status_code r \<and> status_code r < 300 \<and> json_body r = Some body
    \<longrightarrow> fst (get_poll_results net w poll_id token base_url) = Inr body)"
  by (auto simp: client_defs answer_def handle_response_2xx split: sum.splits)

theorem success_returns_parsed_body_witness:
  "answer (fixed_network vote_recorded) empty_world
      (snd (cast_vote (fixed_network vote_recorded) empty_world 1 3 ''tok'' default_base_url))
     = Inr vote_recorded
   \<and> fst (cast_vote (fixed_network vote_recorded) empty_world 1 3 ''tok'' default_base_url)
     = Inr (JObject [(''id'', JInt 7), (''option_id'', JInt 3)])
   \<and> fst (get_poll_results (fixed_network vote_recorded) empty_world 1 ''tok'' default_base_url)
     = Inr (JObject [(''id'', JInt 7), (''option_id'', JInt 3)])"
  using success_returns_parsed_body
    [of 1 3 "''tok''" "fixed_network vote_recorded" empty_world default_base_url
        vote_recorded "JObject [(''id'', JInt 7), (''option_id'', JInt 3)]"]
  by (simp add: answer_def fixed_network_def vote_recorded_def)




text \<open>
  Claim C3. A response with status 401 or 404 makes both functions raise
  \<^verbatim>\<open>ApiClientError\<close> with the fixed message of the function; the body of the response is
  not returned.
\<close>

theorem status_401_404_raise_ApiClientError:
  "(poll_id \<noteq> 0 \<and> option_id \<noteq> 0 \<and> token \<noteq> []
      \<and> answer net w (snd (cast_vote net w poll_id option_id token base_url)) = Inr r
    \<longrightarrow> (status_code r = 401
          \<longrightarrow> fst (cast_vote net w poll_id option_id token base_url)
              = Inl (ApiClientError (JString ''Unauthorized: invalid or expired token'')))
       \<and> (status_code r = 404
          \<longrightarrow> fst (cast_vote net w poll_id option_id token base_url)
              = Inl (ApiClientError (JString ''Poll or option not found''))))
   \<and> (poll_id \<noteq> 0 \<and> token \<noteq> []
      \<and> answer net w (snd (get_poll_results net w poll_id token base_url)) = Inr r
    \<longrightarrow> (status_code r = 401
          \<longrightarrow> fst (get_poll_results net w poll_id token base_url)
              = Inl (ApiClientError (JString ''Unauthorized: invalid or expired token'')))
       \<and> (status_code r = 404
          \<longrightarrow> fst (get_poll_results net w poll_id token base_url)
              = Inl (ApiClientError (JString ''Poll not found''))))"
  by (auto simp: client_defs answer_def split: sum.splits)

theorem status_401_404_raise_ApiClientError_witness:
  "answer (fixed_network unauthorized) empty_world
      (snd (cast_vote (fixed_network unauthorized) empty_world 1 3 ''tok'' default_base_url))
     = Inr unauthorized
   \<and> status_code unauthorized = 401
   \<and> fst (cast_vote (fixed_network unauthorized) empty_world 1 3 ''tok'' default_base_url)
     = Inl (ApiClientError (JString ''Unauthorized: invalid or expired token''))
   \<and> answer (fixed_network not_found) empty_world
      (snd (get_poll_results (fixed_network not_found) empty_world 1 ''tok'' default_base_url))
     = Inr not_found
   \<and> status_code not_found = 404
   \<and> fst (get_poll_results (fixed_network not_found) empty_world 1 ''tok'' default_base_url)
     = Inl (ApiClientError (JString ''Poll not found''))"
  using status_401_404_raise_ApiClientError
      [of 1 3 "''tok''" "fixed_network unauthorized" empty_world default_base_url unauthorized]
    status_401_404_raise_ApiClientError
      [of 1 3 "''tok''" "fixed_network not_found" empty_world default_base_url not_found]
  by (simp add: answer_def fixed_network_def unauthorized_def not_found_def)

text \<open>
  Claim C4. The claim, like the docstring of \<^verbatim>\<open>_handle_response\<close>, wants
  \<^verbatim>\<open>ApiClientError\<close> for every status outside the 200 range. The handler leaves the test
  to \<^verbatim>\<open>raise_for_status\<close>, which raises for 400 to 599 only: a response with status 300
  and a JSON body is returned to the caller as if it were a success.
\<close>

theorem status_300_returns_body:
  "status_code multiple_choices = 300
   \<and> fst (cast_vote (fixed_network multiple_choices) empty_world 1 3 ''tok'' default_base_url)
     = Inr (JObject [(''alternatives'', JArray [])])
   \<and> fst (get_poll_results (fixed_network multiple_choices) empty_world 1 ''tok''
            default_base_url)
     = Inr (JObject [(''alternatives'', JArray [])])"
  by (simp add: eval_defs multiple_choices_def)










text \<open>
  Claim C9. Validation comes before the network: when \<^verbatim>\<open>poll_id\<close>, \<^verbatim>\<open>option_id\<close> or
  the token is falsy, the call raises \<^verbatim>\<open>ValueError\<close> and leaves the world as it found
  it, so no request has been sent.
\<close>

theorem validation_precedes_request:
  "(poll_id = 0 \<or> option_id = 0 \<or> token = [] \<longrightarrow>
      raises_ValueError (fst (cast_vote net w poll_id option_id token base_url))
      \<and> snd (cast_vote net w poll_id option_id token base_url) = w
      \<and> new_requests w (snd (cast_vote net w poll_id option_id token base_url)) = [])
   \<and> (poll_id = 0 \<or> token = [] \<longrightarrow>
      raises_ValueError (fst (get_poll_results net w poll_id token base_url))
      \<and> snd (get_poll_results net w poll_id token base_url) = w
      \<and> new_requests w (snd (get_poll_results net w poll_id token base_url)) = [])"
  by (simp add: cast_vote_invalid get_poll_results_invalid new_requests_def)

theorem validation_precedes_request_witness:
  "raises_ValueError
     (fst (cast_vote (fixed_network vote_recorded) empty_world 1 0 ''tok'' default_base_url))
   \<and> snd (cast_vote (fixed_network vote_recorded) empty_world 1 0 ''tok'' default_base_url)
     = empty_world
   \<and> raises_ValueError
     (fst (get_poll_results (fixed_network vote_recorded) empty_world 1 [] default_base_url))
   \<and> snd (get_poll_results (fixed_network vote_recorded) empty_world 1 [] default_base_url)
     = empty_world"
  using validation_precedes_request
      [of 1 0 "''tok''" "fixed_network vote_recorded" empty_world default_base_url]
    validation_precedes_request
      [of 1 0 "[]" "fixed_network vote_recorded" empty_world default_base_url]
  by simp

text \<open>
  Claim C10. One more slash at the end of \<^verbatim>\<open>base_url\<close> changes nothing: the call with
  \<^verbatim>\<open>b + "/"\<close> sends the same request, to the same URL, and ends the same way as the call
  with \<^verbatim>\<open>b\<close>.
\<close>

theorem trailing_slash_absorbed:
  "cast_vote net w poll_id option_id token (base_url @ ''/'')
     = cast_vote net w poll_id option_id token base_url
   \<and> get_poll_results net w poll_id token (base_url @ ''/'')
     = get_poll_results net w poll_id token base_url"
  by (simp add: cast_vote_def get_poll_results_def rstrip_append_slash)

theorem trailing_slash_absorbed_witness:
  "cast_vote (fixed_network vote_recorded) empty_world 1 3 ''tok'' ''http://h/''
     = cast_vote (fixed_network vote_recorded) empty_world 1 3 ''tok'' ''http://h''
   \<and> get_poll_results (fixed_network vote_recorded) empty_world 1 ''tok'' ''http://h/''
     = get_poll_results (fixed_network vote_recorded) empty_world 1 ''tok'' ''http://h''"
  using trailing_slash_absorbed
    [of "fixed_network vote_recorded" empty_world 1 3 "''tok''" "''http://h''"]
  by simp

end
